theory Spec2Isabelle
  imports Main
begin

section \<open>Data model\<close>

text \<open>
  The \<open>users\<close> table, with the columns the server reads and writes: the primary key
  \<open>id\<close> and the three columns of the insert statement of the strategy's verify callback.
  The key is called \<open>user_id\<close> here, \<open>id\<close> being HOL's identity function.
\<close>

record user_row =
  user_id :: nat
  github_id :: string
  avatar_url :: string
  username :: string

text \<open>
  The table is the list of its rows, in insertion order, together with the counter from
  which the database assigns the next primary key.
\<close>

record users_table =
  rows :: "user_row list"
  next_id :: nat

text \<open>
  The part of the GitHub profile the verify callback reads: \<open>profile.id\<close>,
  \<open>profile._json.avatar_url\<close> and \<open>profile.username\<close>.
\<close>

record profile =
  profile_id :: string
  json_avatar_url :: string
  profile_username :: string

text \<open>
  The object handed to \<open>done\<close> by the verify callback has the single property \<open>id\<close>:
  it is either a row of \<open>select('id')\<close> or the literal \<open>{ id: userId[0] }\<close>.
\<close>

record auth_user =
  auth_id :: nat

text \<open>\<open>req.session.passport.user\<close>; \<open>None\<close> when no user is logged in.\<close>

record session =
  passport_user :: "nat option"

text \<open>The environment: \<open>process.env.CLIENT_URL\<close> and the provider's authorization page.\<close>

record config =
  client_url :: string
  authorize_url :: string

datatype db_error = Db_error

text \<open>
  A node-style callback is either invoked with a value, or never invoked. The source
  never passes an error to \<open>done\<close>, so there is no third case.
\<close>

datatype 'a callback = Not_called | Done 'a

datatype json = JNum nat | JStr string | JObj "(string \<times> json) list"

text \<open>
  A response: \<open>res.redirect(url)\<close> (status 302), \<open>res.status(n).json(body)\<close>, or the
  error page with which Express answers a request that a middleware has ended with an
  error (the server installs no error handler of its own).
\<close>

datatype response = Redirect nat string | Json nat json | Server_error

section \<open>The identity store\<close>

text \<open>
  Each knex query is one round trip to the database. Its promise is rejected when the
  flag \<open>rejects\<close> is set (the database is unreachable, the statement fails), and
  is resolved with the result otherwise.
\<close>

text \<open>\<open>knex('users').select('id').where({ github_id: g })\<close>\<close>

definition select_id_where_github_id ::
    "bool \<Rightarrow> users_table \<Rightarrow> string \<Rightarrow> db_error + auth_user list" where
  "select_id_where_github_id rejects t g =
     (if rejects then Inl Db_error
      else Inr (map (\<lambda>r. \<lparr>auth_id = user_id r\<rparr>) (filter (\<lambda>r. github_id r = g) (rows t))))"

text \<open>
  \<open>knex('users').insert({ github_id, avatar_url, username })\<close>: the database assigns the
  key, and the promise resolves with the array holding it; the result here is that
  array's element 0, with the table after the insert.
\<close>

definition insert_user ::
    "bool \<Rightarrow> users_table \<Rightarrow> string \<Rightarrow> string \<Rightarrow> string \<Rightarrow> db_error + (nat \<times> users_table)" where
  "insert_user rejects t g a u =
     (if rejects then Inl Db_error
      else Inr (next_id t,
                t\<lparr>rows := rows t @ [\<lparr>user_id = next_id t, github_id = g,
                                       avatar_url = a, username = u\<rparr>],
                  next_id := Suc (next_id t)\<rparr>))"

text \<open>\<open>knex('users').where({ id: userId })\<close>\<close>

definition select_where_id :: "bool \<Rightarrow> users_table \<Rightarrow> nat \<Rightarrow> db_error + user_row list" where
  "select_where_id rejects t i =
     (if rejects then Inl Db_error else Inr (filter (\<lambda>r. user_id r = i) (rows t)))"

section \<open>Passport configuration\<close>

text \<open>
  The verify callback of the GitHub strategy. Both \<open>catch\<close> branches only log: \<open>done\<close>
  is not called in them.
\<close>

definition verify ::
    "bool \<Rightarrow> bool \<Rightarrow> users_table \<Rightarrow> profile \<Rightarrow> auth_user callback \<times> users_table" where
  "verify select_rejects insert_rejects t p =
     (case select_id_where_github_id select_rejects t (profile_id p) of
        Inl err \<Rightarrow> (Not_called, t)
      | Inr user \<Rightarrow>
          (case user of
             u # _ \<Rightarrow> (Done u, t)
           | [] \<Rightarrow>
               (case insert_user insert_rejects t (profile_id p) (json_avatar_url p)
                       (profile_username p) of
                  Inl err \<Rightarrow> (Not_called, t)
                | Inr (userId, t') \<Rightarrow> (Done \<lparr>auth_id = userId\<rparr>, t'))))"

definition serializeUser :: "auth_user \<Rightarrow> nat callback" where
  "serializeUser user = Done (auth_id user)"

text \<open>
  \<open>user[0]\<close> of an empty result is \<open>undefined\<close>: the value \<open>None\<close> passed to \<open>done\<close>.
\<close>

definition deserializeUser :: "bool \<Rightarrow> users_table \<Rightarrow> nat \<Rightarrow> user_row option callback" where
  "deserializeUser rejects t userId =
     (case select_where_id rejects t userId of
        Inl err \<Rightarrow> Not_called
      | Inr user \<Rightarrow> Done (case user of [] \<Rightarrow> None | u # _ \<Rightarrow> Some u))"

text \<open>
  \<open>passport.session()\<close>, as far as the server relies on it. A session without a user
  passes on with \<open>req.user\<close> undefined. Otherwise passport runs its chain of
  deserializers, here the single \<open>deserializeUser\<close> above:
  \<^item> while \<open>done\<close> has not been called the request does not go on (\<open>Pending\<close>);
  \<^item> a user handed to \<open>done\<close> becomes \<open>req.user\<close>;
  \<^item> \<open>undefined\<close> is neither a user nor the \<open>null\<close> or \<open>false\<close> by which a
    deserializer reports a user that is gone: passport turns to the next deserializer,
    finds none, and ends the request with the error
    \<open>Failed to deserialize user out of session\<close> (\<open>Failed\<close>). The session keeps its id.
\<close>

datatype session_result = Pending | Failed | Pass "user_row option"

definition passport_session :: "bool \<Rightarrow> users_table \<Rightarrow> session \<Rightarrow> session_result" where
  "passport_session rejects t s =
     (case passport_user s of
        None \<Rightarrow> Pass None
      | Some su \<Rightarrow>
          (case deserializeUser rejects t su of
             Not_called \<Rightarrow> Pending
           | Done None \<Rightarrow> Failed
           | Done (Some u) \<Rightarrow> Pass (Some u)))"

section \<open>The routes of \<open>/auth\<close>\<close>

text \<open>
  What the provider's redirect back to the callback URL amounts to for the strategy:
  \<^item> the user has authorized the application and the code is exchanged for the profile;
  \<^item> the user has denied access, which the strategy reports as a failure;
  \<^item> the exchange of the code for a token, or the request for the profile, does not
    succeed, which the strategy reports as an error.
\<close>

datatype oauth_outcome = Granted profile | Denied | Exchange_failed

text \<open>\<open>GET /auth/github\<close>\<close>

definition github_route :: "config \<Rightarrow> response" where
  "github_route cfg = Redirect 302 (authorize_url cfg)"

text \<open>
  \<open>GET /auth/github/callback\<close>: \<open>passport.authenticate\<close> with the \<open>failureRedirect\<close>
  option, then the handler that redirects to the client. Between the two, passport logs
  the user in: the value \<open>serializeUser\<close> yields becomes the session's user. The
  \<open>failureRedirect\<close> option covers a failure the strategy reports; an error goes to
  Express.
\<close>

definition github_callback_route ::
    "config \<Rightarrow> bool \<Rightarrow> bool \<Rightarrow> users_table \<Rightarrow> session \<Rightarrow> oauth_outcome
       \<Rightarrow> response option \<times> users_table \<times> session" where
  "github_callback_route cfg select_rejects insert_rejects t s outcome =
     (case outcome of
        Denied \<Rightarrow> (Some (Redirect 302 (client_url cfg @ ''/auth-fail'')), t, s)
      | Exchange_failed \<Rightarrow> (Some Server_error, t, s)
      | Granted p \<Rightarrow>
          (case verify select_rejects insert_rejects t p of
             (Not_called, t') \<Rightarrow> (None, t', s)
           | (Done user, t') \<Rightarrow>
               (case serializeUser user of
                  Not_called \<Rightarrow> (None, t', s)
                | Done i \<Rightarrow>
                    (Some (Redirect 302 (client_url cfg)), t', s\<lparr>passport_user := Some i\<rparr>))))"

text \<open>\<open>res.json(req.user)\<close> writes every column of the row.\<close>

definition user_json :: "user_row \<Rightarrow> json" where
  "user_json r =
     JObj [(''id'', JNum (user_id r)), (''github_id'', JStr (github_id r)),
           (''avatar_url'', JStr (avatar_url r)), (''username'', JStr (username r))]"

text \<open>The member of a JSON object under a key.\<close>

definition json_field :: "json \<Rightarrow> string \<Rightarrow> json option" where
  "json_field j k = (case j of JObj kvs \<Rightarrow> map_of kvs k | _ \<Rightarrow> None)"

text \<open>\<open>GET /auth/profile\<close>; \<open>None\<close> is \<open>req.user === undefined\<close>.\<close>

definition profile_route :: "user_row option \<Rightarrow> response" where
  "profile_route req_user =
     (case req_user of
        None \<Rightarrow> Json 401 (JObj [(''message'', JStr ''Unauthorized'')])
      | Some u \<Rightarrow> Json 200 (user_json u))"

text \<open>
  \<open>GET /auth/logout\<close>: \<open>req.logout()\<close>, called as the source calls it (synchronously,
  without a callback), removes the user from the session.
\<close>

definition logout_route :: "config \<Rightarrow> session \<Rightarrow> response \<times> session" where
  "logout_route cfg s = (Redirect 302 (client_url cfg), s\<lparr>passport_user := None\<rparr>)"

section \<open>The server\<close>

record server =
  users :: users_table
  sess :: session

datatype request =
    Get_github
  | Get_github_callback oauth_outcome bool bool
  | Get_profile
  | Get_logout

text \<open>
  One request of one client: the session middleware first (\<open>lookup_rejects\<close> says
  whether its query is rejected), then the route. The response is \<open>None\<close> when the
  request is left without one.
\<close>

definition handle :: "config \<Rightarrow> bool \<Rightarrow> request \<Rightarrow> server \<Rightarrow> response option \<times> server" where
  "handle cfg lookup_rejects rq sv =
     (case passport_session lookup_rejects (users sv) (sess sv) of
        Pending \<Rightarrow> (None, sv)
      | Failed \<Rightarrow> (Some Server_error, sv)
      | Pass req_user \<Rightarrow>
          (case rq of
             Get_github \<Rightarrow> (Some (github_route cfg), sv)
           | Get_github_callback outcome select_rejects insert_rejects \<Rightarrow>
               (case github_callback_route cfg select_rejects insert_rejects (users sv) (sess sv)
                       outcome of
                  (resp, t', s') \<Rightarrow> (resp, \<lparr>users = t', sess = s'\<rparr>))
           | Get_profile \<Rightarrow> (Some (profile_route req_user), sv)
           | Get_logout \<Rightarrow>
               (case logout_route cfg (sess sv) of (resp, s') \<Rightarrow> (Some resp, sv\<lparr>sess := s'\<rparr>))))"

text \<open>Requests handled one after the other.\<close>

fun run :: "config \<Rightarrow> server \<Rightarrow> (bool \<times> request) list \<Rightarrow> server" where
  "run cfg sv [] = sv"
| "run cfg sv ((lookup_rejects, rq) # rest) = run cfg (snd (handle cfg lookup_rejects rq sv)) rest"

text \<open>Logins executed one after the other, seen from the identity store.\<close>

fun logins :: "users_table \<Rightarrow> (bool \<times> bool \<times> profile) list \<Rightarrow> users_table" where
  "logins t [] = t"
| "logins t ((select_rejects, insert_rejects, p) # ps) =
     logins (snd (verify select_rejects insert_rejects t p)) ps"

text \<open>A request that can log a user in.\<close>

fun is_login :: "request \<Rightarrow> bool" where
  "is_login (Get_github_callback (Granted p) select_rejects insert_rejects) = True"
| "is_login rq = False"

section \<open>Example data\<close>

abbreviation example_config :: config where
  "example_config \<equiv> \<lparr>client_url = ''http://localhost:3000'',
                      authorize_url = ''https://github.com/login/oauth/authorize''\<rparr>"

abbreviation ann_row :: user_row where
  "ann_row \<equiv> \<lparr>user_id = 7, github_id = ''42'', avatar_url = ''a.png'', username = ''ann''\<rparr>"

abbreviation ann_table :: users_table where
  "ann_table \<equiv> \<lparr>rows = [ann_row], next_id = 8\<rparr>"

abbreviation empty_table :: users_table where
  "empty_table \<equiv> \<lparr>rows = [], next_id = 1\<rparr>"

abbreviation bob_profile :: profile where
  "bob_profile \<equiv> \<lparr>profile_id = ''42'', json_avatar_url = ''b.png'', profile_username = ''bob''\<rparr>"

abbreviation bob_row :: user_row where
  "bob_row \<equiv> \<lparr>user_id = 1, github_id = ''42'', avatar_url = ''b.png'', username = ''bob''\<rparr>"

abbreviation cat_profile :: profile where
  "cat_profile \<equiv> \<lparr>profile_id = ''99'', json_avatar_url = ''c.png'', profile_username = ''cat''\<rparr>"

abbreviation ann_logged_in :: server where
  "ann_logged_in \<equiv> \<lparr>users = ann_table, sess = \<lparr>passport_user = Some 7\<rparr>\<rparr>"

abbreviation ann_logged_out :: server where
  "ann_logged_out \<equiv> \<lparr>users = ann_table, sess = \<lparr>passport_user = None\<rparr>\<rparr>"


section \<open>Find-or-create\<close>

lemma verify_found:
  assumes "filter (\<lambda>r. github_id r = profile_id p) (rows t) = r # rest"
  shows "verify False insert_rejects t p = (Done \<lparr>auth_id = user_id r\<rparr>, t)"
  using assms by (simp add: verify_def select_id_where_github_id_def)

lemma verify_created:
  assumes "filter (\<lambda>r. github_id r = profile_id p) (rows t) = []"
  shows "verify False False t p =
           (Done \<lparr>auth_id = next_id t\<rparr>,
            t\<lparr>rows := rows t @ [\<lparr>user_id = next_id t, github_id = profile_id p,
                                   avatar_url = json_avatar_url p,
                                   username = profile_username p\<rparr>],
              next_id := Suc (next_id t)\<rparr>)"
  using assms by (simp add: verify_def select_id_where_github_id_def insert_user_def)


text \<open>
  A login changes the table in one way only: it appends one row for the profile's
  external id, and only when no row has that id.
\<close>

lemma verify_rows:
  "rows (snd (verify select_rejects insert_rejects t p)) = rows t \<or>
   (filter (\<lambda>r. github_id r = profile_id p) (rows t) = [] \<and>
    (\<exists>r. rows (snd (verify select_rejects insert_rejects t p)) = rows t @ [r] \<and>
         github_id r = profile_id p))"
  by (simp add: verify_def select_id_where_github_id_def insert_user_def split: list.splits)

lemma verify_distinct:
  assumes "distinct (map github_id (rows t))"
  shows "distinct (map github_id (rows (snd (verify select_rejects insert_rejects t p))))"
proof -
  from verify_rows [of select_rejects insert_rejects t p] show ?thesis
  proof
    assume "rows (snd (verify select_rejects insert_rejects t p)) = rows t"
    with assms show ?thesis by simp
  next
    assume new: "filter (\<lambda>r. github_id r = profile_id p) (rows t) = [] \<and>
      (\<exists>r. rows (snd (verify select_rejects insert_rejects t p)) = rows t @ [r] \<and>
           github_id r = profile_id p)"
    then obtain r where r: "rows (snd (verify select_rejects insert_rejects t p)) = rows t @ [r]"
      "github_id r = profile_id p" by blast
    from new have "profile_id p \<notin> github_id ` set (rows t)"
      by (auto simp: filter_empty_conv)
    with assms r show ?thesis by simp
  qed
qed

lemma logins_distinct:
  "distinct (map github_id (rows t)) \<Longrightarrow> distinct (map github_id (rows (logins t ps)))"
proof (induction ps arbitrary: t)
  case Nil
  then show ?case by simp
next
  case (Cons a ps)
  obtain sel ins p where a: "a = (sel, ins, p)" by (cases a)
  from Cons.prems have "distinct (map github_id (rows (snd (verify sel ins t p))))"
    by (rule verify_distinct)
  then show ?case unfolding a by (simp add: Cons.IH)
qed

lemma verify_filter_kept:
  assumes "filter (\<lambda>r. github_id r = g) (rows t) \<noteq> []"
  shows "filter (\<lambda>r. github_id r = g) (rows (snd (verify select_rejects insert_rejects t p))) =
         filter (\<lambda>r. github_id r = g) (rows t)"
proof -
  from verify_rows [of select_rejects insert_rejects t p] show ?thesis
  proof
    assume "rows (snd (verify select_rejects insert_rejects t p)) = rows t"
    then show ?thesis by simp
  next
    assume new: "filter (\<lambda>r. github_id r = profile_id p) (rows t) = [] \<and>
      (\<exists>r. rows (snd (verify select_rejects insert_rejects t p)) = rows t @ [r] \<and>
           github_id r = profile_id p)"
    then obtain r where r: "rows (snd (verify select_rejects insert_rejects t p)) = rows t @ [r]"
      "github_id r = profile_id p" by blast
    from new assms have "g \<noteq> profile_id p" by auto
    with r show ?thesis by simp
  qed
qed

lemma logins_filter_kept:
  "filter (\<lambda>r. github_id r = g) (rows t) \<noteq> [] \<Longrightarrow>
   filter (\<lambda>r. github_id r = g) (rows (logins t ps)) = filter (\<lambda>r. github_id r = g) (rows t)"
proof (induction ps arbitrary: t)
  case Nil
  then show ?case by simp
next
  case (Cons a ps)
  obtain sel ins p where a: "a = (sel, ins, p)" by (cases a)
  have kept: "filter (\<lambda>r. github_id r = g) (rows (snd (verify sel ins t p))) =
              filter (\<lambda>r. github_id r = g) (rows t)"
    using Cons.prems by (rule verify_filter_kept)
  with Cons.prems have "filter (\<lambda>r. github_id r = g) (rows (snd (verify sel ins t p))) \<noteq> []"
    by simp
  then have "filter (\<lambda>r. github_id r = g) (rows (logins (snd (verify sel ins t p)) ps)) =
             filter (\<lambda>r. github_id r = g) (rows (snd (verify sel ins t p)))"
    by (rule Cons.IH)
  with kept show ?case unfolding a by simp
qed

text \<open>
  Claim C1. When the store answers, the verify callback looks the user up by the
  profile's external id. If rows match, it hands on the internal id of the first of
  them and leaves the table as it is. If no row matches, it appends one row with the
  profile's external id, avatar URL and user name, and hands on the id the store
  assigned to it.
\<close>

theorem find_or_create:
  "(\<forall>r rest. filter (\<lambda>r. github_id r = profile_id p) (rows t) = r # rest \<longrightarrow>
      verify False insert_rejects t p = (Done \<lparr>auth_id = user_id r\<rparr>, t)) \<and>
   ((\<forall>r \<in> set (rows t). github_id r \<noteq> profile_id p) \<longrightarrow>
      verify False False t p =
        (Done \<lparr>auth_id = next_id t\<rparr>,
         t\<lparr>rows := rows t @ [\<lparr>user_id = next_id t, github_id = profile_id p,
                                avatar_url = json_avatar_url p,
                                username = profile_username p\<rparr>],
           next_id := Suc (next_id t)\<rparr>))"
proof (intro conjI allI impI)
  fix r rest
  assume "filter (\<lambda>r. github_id r = profile_id p) (rows t) = r # rest"
  then show "verify False insert_rejects t p = (Done \<lparr>auth_id = user_id r\<rparr>, t)"
    by (rule verify_found)
next
  assume "\<forall>r \<in> set (rows t). github_id r \<noteq> profile_id p"
  then have "filter (\<lambda>r. github_id r = profile_id p) (rows t) = []"
    by (simp add: filter_empty_conv)
  then show "verify False False t p =
        (Done \<lparr>auth_id = next_id t\<rparr>,
         t\<lparr>rows := rows t @ [\<lparr>user_id = next_id t, github_id = profile_id p,
                                avatar_url = json_avatar_url p,
                                username = profile_username p\<rparr>],
           next_id := Suc (next_id t)\<rparr>)"
    by (rule verify_created)
qed

theorem find_or_create_witness:
  "filter (\<lambda>r. github_id r = profile_id bob_profile) (rows ann_table) = [ann_row] \<and>
   verify False True ann_table bob_profile = (Done \<lparr>auth_id = 7\<rparr>, ann_table) \<and>
   filter (\<lambda>r. github_id r = profile_id bob_profile) (rows empty_table) = [] \<and>
   verify False False empty_table bob_profile =
     (Done \<lparr>auth_id = 1\<rparr>, \<lparr>rows = [bob_row], next_id = 2\<rparr>)"
  using find_or_create [where t = ann_table and p = bob_profile and insert_rejects = True]
    find_or_create [where t = empty_table and p = bob_profile]
  by simp

section \<open>Failures of the store\<close>

text \<open>
  Claim C2. A login during which the lookup or the insert is rejected should end as a
  failed login. Evaluated at a first login of an unknown user against an empty table:
  when the lookup is rejected, and likewise when the insert is rejected, the callback
  request gets no response at all; the table and the session stay as they were.
\<close>

theorem login_store_failure_leaves_request_pending:
  "handle example_config False (Get_github_callback (Granted bob_profile) True False)
     \<lparr>users = empty_table, sess = \<lparr>passport_user = None\<rparr>\<rparr> =
     (None, \<lparr>users = empty_table, sess = \<lparr>passport_user = None\<rparr>\<rparr>) \<and>
   handle example_config False (Get_github_callback (Granted bob_profile) False True)
     \<lparr>users = empty_table, sess = \<lparr>passport_user = None\<rparr>\<rparr> =
     (None, \<lparr>users = empty_table, sess = \<lparr>passport_user = None\<rparr>\<rparr>)"
  by (simp add: handle_def passport_session_def github_callback_route_def verify_def
        select_id_where_github_id_def insert_user_def)

section \<open>Stale sessions\<close>

lemma session_anonymous:
  "passport_user s = None \<Longrightarrow> passport_session rejects t s = Pass None"
  by (simp add: passport_session_def)

lemma session_found:
  assumes "passport_user s = Some uid" and "filter (\<lambda>r. user_id r = uid) (rows t) = r # rest"
  shows "passport_session False t s = Pass (Some r)"
  using assms by (simp add: passport_session_def deserializeUser_def select_where_id_def)

text \<open>
  Claim C3. The session holds an internal id that no row of the table has, here the id
  3 against a table whose only row has the id 7, and the lookup is answered. The claim
  has the request go on without a user and the profile endpoint answer 401. Evaluated:
  \<open>deserializeUser\<close> hands \<open>undefined\<close> to \<open>done\<close>, the session middleware ends the
  request with an error, and the answer to \<open>GET /auth/profile\<close> is the error page;
  the session still holds the id.
\<close>

theorem stale_session_request_fails:
  "deserializeUser False ann_table 3 = Done None \<and>
   passport_session False ann_table \<lparr>passport_user = Some 3\<rparr> = Failed \<and>
   handle example_config False Get_profile
     \<lparr>users = ann_table, sess = \<lparr>passport_user = Some 3\<rparr>\<rparr> =
     (Some Server_error, \<lparr>users = ann_table, sess = \<lparr>passport_user = Some 3\<rparr>\<rparr>)"
  by (simp add: handle_def passport_session_def deserializeUser_def select_where_id_def)

section \<open>The profile endpoint\<close>

text \<open>
  Claim C4. \<open>GET /auth/profile\<close>: when the session middleware has attached a user,
  the answer is 200 with that user as the JSON body, whose member \<open>id\<close> is the
  internal id; when the request has gone on without one, the answer is 401 with exactly
  the body \<open>{"message":"Unauthorized"}\<close>. The request changes neither the table nor
  the session.
\<close>

theorem profile_gate:
  "(passport_session rejects (users sv) (sess sv) = Pass (Some u) \<longrightarrow>
      handle cfg rejects Get_profile sv = (Some (Json 200 (user_json u)), sv) \<and>
      json_field (user_json u) ''id'' = Some (JNum (user_id u))) \<and>
   (passport_session rejects (users sv) (sess sv) = Pass None \<longrightarrow>
      handle cfg rejects Get_profile sv =
        (Some (Json 401 (JObj [(''message'', JStr ''Unauthorized'')])), sv)) \<and>
   snd (handle cfg rejects Get_profile sv) = sv \<and>
   profile_route (Some u) = Json 200 (user_json u) \<and>
   profile_route None = Json 401 (JObj [(''message'', JStr ''Unauthorized'')])"
proof (intro conjI impI)
  assume "passport_session rejects (users sv) (sess sv) = Pass (Some u)"
  then show "handle cfg rejects Get_profile sv = (Some (Json 200 (user_json u)), sv)"
    by (simp add: handle_def profile_route_def)
next
  show "json_field (user_json u) ''id'' = Some (JNum (user_id u))"
    by (simp add: json_field_def user_json_def)
next
  assume "passport_session rejects (users sv) (sess sv) = Pass None"
  then show "handle cfg rejects Get_profile sv =
        (Some (Json 401 (JObj [(''message'', JStr ''Unauthorized'')])), sv)"
    by (simp add: handle_def profile_route_def)
next
  show "snd (handle cfg rejects Get_profile sv) = sv"
    by (simp add: handle_def split: session_result.splits)
next
  show "profile_route (Some u) = Json 200 (user_json u)"
    by (simp add: profile_route_def)
next
  show "profile_route None = Json 401 (JObj [(''message'', JStr ''Unauthorized'')])"
    by (simp add: profile_route_def)
qed

theorem profile_gate_witness:
  "passport_session False (users ann_logged_in) (sess ann_logged_in) = Pass (Some ann_row) \<and>
   handle example_config False Get_profile ann_logged_in =
     (Some (Json 200 (user_json ann_row)), ann_logged_in) \<and>
   json_field (user_json ann_row) ''id'' = Some (JNum 7) \<and>
   passport_session True (users ann_logged_out) (sess ann_logged_out) = Pass None \<and>
   handle example_config True Get_profile ann_logged_out =
     (Some (Json 401 (JObj [(''message'', JStr ''Unauthorized'')])), ann_logged_out)"
  using profile_gate [where rejects = False and sv = ann_logged_in and u = ann_row
      and cfg = example_config]
    profile_gate [where rejects = True and sv = ann_logged_out and cfg = example_config]
  by (simp add: passport_session_def deserializeUser_def select_where_id_def)

section \<open>No profile refresh\<close>

lemma verify_existing_unchanged:
  assumes "r \<in> set (rows t)" and "github_id r = profile_id p"
  shows "snd (verify select_rejects insert_rejects t p) = t"
proof -
  from assms have "filter (\<lambda>r. github_id r = profile_id p) (rows t) \<noteq> []"
    by (auto simp: filter_empty_conv)
  then show ?thesis
    by (simp add: verify_def select_id_where_github_id_def split: list.splits)
qed

lemma callback_users:
  "users (snd (handle cfg rejects (Get_github_callback (Granted p) sel ins) sv)) = users sv \<or>
   users (snd (handle cfg rejects (Get_github_callback (Granted p) sel ins) sv)) =
     snd (verify sel ins (users sv) p)"
  by (simp add: handle_def github_callback_route_def serializeUser_def
        split: prod.splits callback.splits session_result.splits)

text \<open>
  Claim C5. A login whose external id already has a row leaves the table exactly as
  it was, and so the stored user name and avatar URL of that row, whatever the
  provider reports for them and whether or not the store answers.
\<close>

theorem login_keeps_existing_row:
  assumes "r \<in> set (rows (users sv))" and "github_id r = profile_id p"
  shows "snd (verify select_rejects insert_rejects (users sv) p) = users sv \<and>
         users (snd (handle cfg lookup_rejects
                  (Get_github_callback (Granted p) select_rejects insert_rejects) sv)) = users sv"
proof -
  have v: "snd (verify select_rejects insert_rejects (users sv) p) = users sv"
    using assms by (rule verify_existing_unchanged)
  with callback_users [of cfg lookup_rejects p select_rejects insert_rejects sv]
  show ?thesis by auto
qed

theorem login_keeps_existing_row_witness:
  "ann_row \<in> set (rows (users ann_logged_out)) \<and> github_id ann_row = profile_id bob_profile \<and>
   snd (verify False False (users ann_logged_out) bob_profile) = users ann_logged_out \<and>
   users (snd (handle example_config False (Get_github_callback (Granted bob_profile) False False)
                 ann_logged_out)) = users ann_logged_out"
  using login_keeps_existing_row [where r = ann_row and sv = ann_logged_out and p = bob_profile
      and select_rejects = False and insert_rejects = False and cfg = example_config
      and lookup_rejects = False]
  by simp

section \<open>One row per external id\<close>

lemma verify_first_login:
  assumes "\<forall>r \<in> set (rows t). github_id r \<noteq> profile_id p"
  shows "\<exists>r. verify False False t p = (Done \<lparr>auth_id = user_id r\<rparr>, snd (verify False False t p)) \<and>
             rows (snd (verify False False t p)) = rows t @ [r] \<and>
             github_id r = profile_id p \<and>
             filter (\<lambda>r. github_id r = profile_id p) (rows (snd (verify False False t p))) = [r]"
proof -
  from assms have e: "filter (\<lambda>r. github_id r = profile_id p) (rows t) = []"
    by (simp add: filter_empty_conv)
  let ?r = "\<lparr>user_id = next_id t, github_id = profile_id p,
             avatar_url = json_avatar_url p, username = profile_username p\<rparr>"
  have "verify False False t p = (Done \<lparr>auth_id = user_id ?r\<rparr>, snd (verify False False t p)) \<and>
        rows (snd (verify False False t p)) = rows t @ [?r] \<and>
        github_id ?r = profile_id p \<and>
        filter (\<lambda>r. github_id r = profile_id p) (rows (snd (verify False False t p))) = [?r]"
    by (simp add: verify_created [OF e] e)
  then show ?thesis by blast
qed

text \<open>
  Claim C6. Logins run one at a time. No two rows share an external id: a table
  with that property keeps it through every sequence of logins, and every table reached
  from the empty one has it. The first login with an unseen external id (the store
  answering) appends exactly one row, with that external id, and hands on its internal
  id. After any further logins there is still exactly that one row for the external
  id, and a login with the same external id changes nothing and hands on that row's
  internal id.
\<close>

theorem one_row_per_external_id:
  "(distinct (map github_id (rows t)) \<longrightarrow> distinct (map github_id (rows (logins t ps)))) \<and>
   distinct (map github_id (rows (logins \<lparr>rows = [], next_id = n\<rparr> ps))) \<and>
   ((\<forall>r \<in> set (rows t). github_id r \<noteq> profile_id p) \<longrightarrow>
      (\<exists>r. verify False False t p =
              (Done \<lparr>auth_id = user_id r\<rparr>, snd (verify False False t p)) \<and>
           rows (snd (verify False False t p)) = rows t @ [r] \<and>
           github_id r = profile_id p \<and>
           (\<forall>qs. filter (\<lambda>x. github_id x = profile_id p)
                   (rows (logins (snd (verify False False t p)) qs)) = [r]) \<and>
           (\<forall>qs p' insert_rejects. profile_id p' = profile_id p \<longrightarrow>
              verify False insert_rejects (logins (snd (verify False False t p)) qs) p' =
                (Done \<lparr>auth_id = user_id r\<rparr>, logins (snd (verify False False t p)) qs))))"
proof (intro conjI impI)
  assume "distinct (map github_id (rows t))"
  then show "distinct (map github_id (rows (logins t ps)))"
    by (rule logins_distinct)
next
  have "distinct (map github_id (rows \<lparr>rows = [], next_id = n\<rparr>))" by simp
  then show "distinct (map github_id (rows (logins \<lparr>rows = [], next_id = n\<rparr> ps)))"
    by (rule logins_distinct)
next
  let ?t1 = "snd (verify False False t p)"
  assume "\<forall>r \<in> set (rows t). github_id r \<noteq> profile_id p"
  then obtain r where r:
    "verify False False t p = (Done \<lparr>auth_id = user_id r\<rparr>, ?t1)"
    "rows ?t1 = rows t @ [r]"
    "github_id r = profile_id p"
    "filter (\<lambda>x. github_id x = profile_id p) (rows ?t1) = [r]"
    using verify_first_login by blast
  have kept: "filter (\<lambda>x. github_id x = profile_id p) (rows (logins ?t1 qs)) = [r]" for qs
  proof -
    from r(4) have "filter (\<lambda>x. github_id x = profile_id p) (rows ?t1) \<noteq> []" by simp
    then have "filter (\<lambda>x. github_id x = profile_id p) (rows (logins ?t1 qs)) =
               filter (\<lambda>x. github_id x = profile_id p) (rows ?t1)"
      by (rule logins_filter_kept)
    with r(4) show ?thesis by simp
  qed
  have reuse: "verify False insert_rejects (logins ?t1 qs) p' =
          (Done \<lparr>auth_id = user_id r\<rparr>, logins ?t1 qs)"
    if "profile_id p' = profile_id p" for qs p' insert_rejects
  proof -
    from kept [of qs] that
    have "filter (\<lambda>x. github_id x = profile_id p') (rows (logins ?t1 qs)) = r # []" by simp
    then show ?thesis by (rule verify_found)
  qed
  from r(1-3) kept reuse
  show "\<exists>r. verify False False t p = (Done \<lparr>auth_id = user_id r\<rparr>, ?t1) \<and>
           rows ?t1 = rows t @ [r] \<and>
           github_id r = profile_id p \<and>
           (\<forall>qs. filter (\<lambda>x. github_id x = profile_id p) (rows (logins ?t1 qs)) = [r]) \<and>
           (\<forall>qs p' insert_rejects. profile_id p' = profile_id p \<longrightarrow>
              verify False insert_rejects (logins ?t1 qs) p' =
                (Done \<lparr>auth_id = user_id r\<rparr>, logins ?t1 qs))"
    by blast
qed

theorem one_row_per_external_id_witness:
  "distinct (map github_id (rows ann_table)) \<and>
   distinct (map github_id (rows (logins ann_table [(False, False, cat_profile)]))) \<and>
   filter (\<lambda>r. github_id r = profile_id bob_profile) (rows empty_table) = [] \<and>
   verify False False empty_table bob_profile =
     (Done \<lparr>auth_id = 1\<rparr>, \<lparr>rows = [bob_row], next_id = 2\<rparr>) \<and>
   filter (\<lambda>r. github_id r = ''42'')
     (rows (logins \<lparr>rows = [bob_row], next_id = 2\<rparr>
              [(False, False, cat_profile), (True, False, bob_profile)])) = [bob_row] \<and>
   verify False True
     (logins \<lparr>rows = [bob_row], next_id = 2\<rparr>
        [(False, False, cat_profile), (True, False, bob_profile)])
     \<lparr>profile_id = ''42'', json_avatar_url = ''new.png'', profile_username = ''bobby''\<rparr> =
     (Done \<lparr>auth_id = 1\<rparr>,
      logins \<lparr>rows = [bob_row], next_id = 2\<rparr>
        [(False, False, cat_profile), (True, False, bob_profile)])"
proof -
  let ?t1 = "\<lparr>rows = [bob_row], next_id = 2\<rparr>"
  let ?qs = "[(False, False, cat_profile), (True, False, bob_profile)]"
  let ?p' = "\<lparr>profile_id = ''42'', json_avatar_url = ''new.png'', profile_username = ''bobby''\<rparr>"
  have inv: "distinct (map github_id (rows ann_table))" by simp
  have unseen: "\<forall>r \<in> set (rows empty_table). github_id r \<noteq> profile_id bob_profile" by simp
  have first: "verify False False empty_table bob_profile = (Done \<lparr>auth_id = 1\<rparr>, ?t1)"
    by (simp add: verify_created)
  from one_row_per_external_id [where t = ann_table and ps = "[(False, False, cat_profile)]"] inv
  have kept: "distinct (map github_id (rows (logins ann_table [(False, False, cat_profile)])))"
    by blast
  from one_row_per_external_id [where t = empty_table and p = bob_profile] unseen
  obtain r where r: "rows (snd (verify False False empty_table bob_profile)) = rows empty_table @ [r]"
    "\<forall>qs. filter (\<lambda>x. github_id x = profile_id bob_profile)
            (rows (logins (snd (verify False False empty_table bob_profile)) qs)) = [r]"
    "\<forall>qs p' insert_rejects. profile_id p' = profile_id bob_profile \<longrightarrow>
       verify False insert_rejects
         (logins (snd (verify False False empty_table bob_profile)) qs) p' =
         (Done \<lparr>auth_id = user_id r\<rparr>,
          logins (snd (verify False False empty_table bob_profile)) qs)"
    by blast
  from r(1) first have eq: "r = bob_row" by simp
  from r(2) have "filter (\<lambda>x. github_id x = profile_id bob_profile)
            (rows (logins (snd (verify False False empty_table bob_profile)) ?qs)) = [r]"
    by (rule spec)
  with first eq have one: "filter (\<lambda>r. github_id r = ''42'') (rows (logins ?t1 ?qs)) = [bob_row]"
    by (simp del: logins.simps)
  have "profile_id ?p' = profile_id bob_profile" by simp
  with r(3) have "verify False True
         (logins (snd (verify False False empty_table bob_profile)) ?qs) ?p' =
         (Done \<lparr>auth_id = user_id r\<rparr>,
          logins (snd (verify False False empty_table bob_profile)) ?qs)"
    by blast
  with first eq have reuse: "verify False True (logins ?t1 ?qs) ?p' =
      (Done \<lparr>auth_id = 1\<rparr>, logins ?t1 ?qs)"
    by (simp del: logins.simps)
  have "filter (\<lambda>r. github_id r = profile_id bob_profile) (rows empty_table) = []" by simp
  with inv kept first one reuse show ?thesis by blast
qed

section \<open>The callback endpoint\<close>

text \<open>
  Claim C7, as stated, at a failed exchange: the answer is the error page, not a
  redirect to the failure page.
\<close>

theorem callback_exchange_failure_counterexample:
  "handle example_config False (Get_github_callback Exchange_failed False False) ann_logged_out =
     (Some Server_error, ann_logged_out) \<and>
   fst (handle example_config False (Get_github_callback Exchange_failed False False)
          ann_logged_out) \<noteq>
     Some (Redirect 302 (client_url example_config @ ''/auth-fail''))"
  by (simp add: handle_def passport_session_def github_callback_route_def)

text \<open>
  Claim C7, amended. \<open>GET /auth/github/callback\<close>: when authentication succeeds (the
  provider grants a profile and the verify callback hands on a user), the answer is a
  302 redirect to the client URL, with the user's id in the session. When the provider
  denies access, the answer is a 302 redirect to the client URL followed by
  \<open>/auth-fail\<close>. When the exchange fails, the answer is the error page. In both
  failure cases neither the table nor the session changes. The statements about whole
  requests are for requests that the session middleware lets pass.
\<close>

theorem callback_redirects:
  "(verify select_rejects insert_rejects t p = (Done user, t') \<longrightarrow>
      github_callback_route cfg select_rejects insert_rejects t s (Granted p) =
        (Some (Redirect 302 (client_url cfg)), t', s\<lparr>passport_user := Some (auth_id user)\<rparr>)) \<and>
   github_callback_route cfg select_rejects insert_rejects t s Denied =
     (Some (Redirect 302 (client_url cfg @ ''/auth-fail'')), t, s) \<and>
   github_callback_route cfg select_rejects insert_rejects t s Exchange_failed =
     (Some Server_error, t, s) \<and>
   (passport_session lookup_rejects (users sv) (sess sv) = Pass req_user \<longrightarrow>
      fst (handle cfg lookup_rejects (Get_github_callback (Granted p) False False) sv) =
        Some (Redirect 302 (client_url cfg)) \<and>
      handle cfg lookup_rejects (Get_github_callback Denied select_rejects insert_rejects) sv =
        (Some (Redirect 302 (client_url cfg @ ''/auth-fail'')), sv) \<and>
      handle cfg lookup_rejects
          (Get_github_callback Exchange_failed select_rejects insert_rejects) sv =
        (Some Server_error, sv))"
proof (intro conjI impI)
  assume "verify select_rejects insert_rejects t p = (Done user, t')"
  then show "github_callback_route cfg select_rejects insert_rejects t s (Granted p) =
        (Some (Redirect 302 (client_url cfg)), t', s\<lparr>passport_user := Some (auth_id user)\<rparr>)"
    by (simp add: github_callback_route_def serializeUser_def)
next
  show "github_callback_route cfg select_rejects insert_rejects t s Denied =
     (Some (Redirect 302 (client_url cfg @ ''/auth-fail'')), t, s)"
    by (simp add: github_callback_route_def)
next
  show "github_callback_route cfg select_rejects insert_rejects t s Exchange_failed =
     (Some Server_error, t, s)"
    by (simp add: github_callback_route_def)
next
  assume a: "passport_session lookup_rejects (users sv) (sess sv) = Pass req_user"
  have "\<exists>user t'. verify False False (users sv) p = (Done user, t')"
    by (simp add: verify_def select_id_where_github_id_def insert_user_def split: list.splits)
  then obtain user t' where "verify False False (users sv) p = (Done user, t')" by blast
  then show "fst (handle cfg lookup_rejects (Get_github_callback (Granted p) False False) sv) =
        Some (Redirect 302 (client_url cfg))"
    by (simp add: handle_def a github_callback_route_def serializeUser_def)
next
  assume a: "passport_session lookup_rejects (users sv) (sess sv) = Pass req_user"
  show "handle cfg lookup_rejects (Get_github_callback Denied select_rejects insert_rejects) sv =
        (Some (Redirect 302 (client_url cfg @ ''/auth-fail'')), sv)"
    by (simp add: handle_def a github_callback_route_def)
next
  assume a: "passport_session lookup_rejects (users sv) (sess sv) = Pass req_user"
  show "handle cfg lookup_rejects
          (Get_github_callback Exchange_failed select_rejects insert_rejects) sv =
        (Some Server_error, sv)"
    by (simp add: handle_def a github_callback_route_def)
qed

theorem callback_redirects_witness:
  "verify False False empty_table bob_profile =
     (Done \<lparr>auth_id = 1\<rparr>, \<lparr>rows = [bob_row], next_id = 2\<rparr>) \<and>
   github_callback_route example_config False False empty_table \<lparr>passport_user = None\<rparr>
       (Granted bob_profile) =
     (Some (Redirect 302 ''http://localhost:3000''), \<lparr>rows = [bob_row], next_id = 2\<rparr>,
      \<lparr>passport_user = Some 1\<rparr>) \<and>
   passport_session False (users ann_logged_out) (sess ann_logged_out) = Pass None \<and>
   fst (handle example_config False (Get_github_callback (Granted bob_profile) False False)
          ann_logged_out) = Some (Redirect 302 ''http://localhost:3000'') \<and>
   handle example_config False (Get_github_callback Denied False False) ann_logged_out =
     (Some (Redirect 302 ''http://localhost:3000/auth-fail''), ann_logged_out)"
  using callback_redirects [where select_rejects = False and insert_rejects = False
      and t = empty_table and p = bob_profile and user = "\<lparr>auth_id = 1\<rparr>"
      and t' = "\<lparr>rows = [bob_row], next_id = 2\<rparr>" and cfg = example_config
      and s = "\<lparr>passport_user = None\<rparr>" and sv = ann_logged_out and lookup_rejects = False
      and req_user = None]
  by (simp add: verify_def select_id_where_github_id_def insert_user_def passport_session_def)

section \<open>Logout\<close>

lemma handle_stays_anonymous:
  assumes "passport_user (sess sv) = None" and "\<not> is_login rq"
  shows "passport_user (sess (snd (handle cfg rejects rq sv))) = None"
proof (cases rq)
  case Get_github
  then show ?thesis
    by (simp add: handle_def session_anonymous [OF assms(1)] assms(1))
next
  case (Get_github_callback outcome sel ins)
  with assms(2) have "outcome = Denied \<or> outcome = Exchange_failed"
    by (cases outcome) simp_all
  with Get_github_callback show ?thesis
    by (auto simp: handle_def session_anonymous [OF assms(1)] github_callback_route_def assms(1))
next
  case Get_profile
  then show ?thesis
    by (simp add: handle_def session_anonymous [OF assms(1)] assms(1))
next
  case Get_logout
  then show ?thesis
    by (simp add: handle_def session_anonymous [OF assms(1)] logout_route_def)
qed

lemma run_stays_anonymous:
  "passport_user (sess sv) = None \<Longrightarrow> \<forall>(rejects, rq) \<in> set rqs. \<not> is_login rq \<Longrightarrow>
   passport_user (sess (run cfg sv rqs)) = None"
proof (induction rqs arbitrary: sv)
  case Nil
  then show ?case by simp
next
  case (Cons a rqs)
  obtain rejects rq where a: "a = (rejects, rq)" by (cases a)
  with Cons.prems(2) have "\<not> is_login rq" by simp
  with Cons.prems(1) have "passport_user (sess (snd (handle cfg rejects rq sv))) = None"
    by (rule handle_stays_anonymous)
  moreover from Cons.prems(2) have "\<forall>(rejects, rq) \<in> set rqs. \<not> is_login rq" by simp
  ultimately have "passport_user (sess (run cfg (snd (handle cfg rejects rq sv)) rqs)) = None"
    by (rule Cons.IH)
  then show ?case unfolding a by simp
qed

text \<open>
  Claim C8. For a session that holds the id of a user of the table, \<open>GET /auth/logout\<close>
  (the session lookup answering) removes the user from the session and redirects to the
  client URL. After it, and after any further requests none of which is a callback with
  a granted profile, \<open>GET /auth/profile\<close> answers 401.
\<close>

theorem logout_then_profile_unauthorized:
  assumes "passport_user (sess sv) = Some uid"
    and "filter (\<lambda>r. user_id r = uid) (rows (users sv)) = r # rest"
  shows "handle cfg False Get_logout sv =
           (Some (Redirect 302 (client_url cfg)),
            sv\<lparr>sess := (sess sv)\<lparr>passport_user := None\<rparr>\<rparr>) \<and>
         (\<forall>rqs rejects. (\<forall>(lookup_rejects, rq) \<in> set rqs. \<not> is_login rq) \<longrightarrow>
            fst (handle cfg rejects Get_profile
                   (run cfg (snd (handle cfg False Get_logout sv)) rqs)) =
              Some (Json 401 (JObj [(''message'', JStr ''Unauthorized'')])))"
proof (intro conjI allI impI)
  have "passport_session False (users sv) (sess sv) = Pass (Some r)"
    using assms by (rule session_found)
  then show out: "handle cfg False Get_logout sv =
           (Some (Redirect 302 (client_url cfg)),
            sv\<lparr>sess := (sess sv)\<lparr>passport_user := None\<rparr>\<rparr>)"
    by (simp add: handle_def logout_route_def)
  fix rqs :: "(bool \<times> request) list" and rejects :: bool
  assume quiet: "\<forall>(lookup_rejects, rq) \<in> set rqs. \<not> is_login rq"
  from out have "passport_user (sess (snd (handle cfg False Get_logout sv))) = None"
    by simp
  then have "passport_user (sess (run cfg (snd (handle cfg False Get_logout sv)) rqs)) = None"
    using quiet by (rule run_stays_anonymous)
  then have "passport_session rejects
               (users (run cfg (snd (handle cfg False Get_logout sv)) rqs))
               (sess (run cfg (snd (handle cfg False Get_logout sv)) rqs)) = Pass None"
    by (rule session_anonymous)
  then show "fst (handle cfg rejects Get_profile
                   (run cfg (snd (handle cfg False Get_logout sv)) rqs)) =
              Some (Json 401 (JObj [(''message'', JStr ''Unauthorized'')]))"
    by (simp add: handle_def profile_route_def)
qed

theorem logout_then_profile_unauthorized_witness:
  "passport_user (sess ann_logged_in) = Some 7 \<and>
   filter (\<lambda>r. user_id r = 7) (rows (users ann_logged_in)) = [ann_row] \<and>
   handle example_config False Get_logout ann_logged_in =
     (Some (Redirect 302 ''http://localhost:3000''), ann_logged_out) \<and>
   fst (handle example_config False Get_profile
          (run example_config (snd (handle example_config False Get_logout ann_logged_in))
             [(False, Get_profile), (True, Get_github),
              (False, Get_github_callback Denied False False), (False, Get_logout)])) =
     Some (Json 401 (JObj [(''message'', JStr ''Unauthorized'')]))"
proof -
  let ?rqs = "[(False, Get_profile), (True, Get_github),
               (False, Get_github_callback Denied False False), (False, Get_logout)]"
  have established: "passport_user (sess ann_logged_in) = Some 7" by simp
  have known: "filter (\<lambda>r. user_id r = 7) (rows (users ann_logged_in)) = ann_row # []" by simp
  have quiet: "\<forall>(lookup_rejects, rq) \<in> set ?rqs. \<not> is_login rq" by simp
  note logout =
    logout_then_profile_unauthorized [OF established known, where cfg = example_config]
  from logout have "handle example_config False Get_logout ann_logged_in =
      (Some (Redirect 302 ''http://localhost:3000''), ann_logged_out)"
    by simp
  moreover from logout quiet
  have "fst (handle example_config False Get_profile
          (run example_config (snd (handle example_config False Get_logout ann_logged_in)) ?rqs)) =
     Some (Json 401 (JObj [(''message'', JStr ''Unauthorized'')]))"
    by blast
  ultimately show ?thesis using established known by blast
qed

section \<open>Serialization\<close>

text \<open>
  Claim C9. \<open>serializeUser\<close> hands on the internal id of the user object and
  nothing else, and a login changes the session in one place only: its user becomes
  that id.
\<close>

theorem serialize_stores_id_only:
  "serializeUser user = Done (auth_id user) \<and>
   (verify select_rejects insert_rejects t p = (Done user, t') \<longrightarrow>
      snd (snd (github_callback_route cfg select_rejects insert_rejects t s (Granted p))) =
        s\<lparr>passport_user := Some (auth_id user)\<rparr>)"
  by (simp add: serializeUser_def github_callback_route_def)

theorem serialize_stores_id_only_witness:
  "verify False False empty_table bob_profile =
     (Done \<lparr>auth_id = 1\<rparr>, \<lparr>rows = [bob_row], next_id = 2\<rparr>) \<and>
   snd (snd (github_callback_route example_config False False empty_table
               \<lparr>passport_user = None\<rparr> (Granted bob_profile))) = \<lparr>passport_user = Some 1\<rparr>"
  using serialize_stores_id_only [where select_rejects = False and insert_rejects = False
      and t = empty_table and p = bob_profile and user = "\<lparr>auth_id = 1\<rparr>"
      and t' = "\<lparr>rows = [bob_row], next_id = 2\<rparr>" and cfg = example_config
      and s = "\<lparr>passport_user = None\<rparr>"]
  by (simp add: verify_def select_id_where_github_id_def insert_user_def)

section \<open>The profile body\<close>

text \<open>
  Claim C10. With a user in the session whose id has a row, the body of
  \<open>GET /auth/profile\<close> is the whole row the lookup by id returns first: \<open>id\<close>,
  \<open>github_id\<close>, \<open>avatar_url\<close> and \<open>username\<close>.
\<close>

theorem profile_returns_whole_row:
  assumes "passport_user (sess sv) = Some uid"
    and "filter (\<lambda>r. user_id r = uid) (rows (users sv)) = r # rest"
  shows "handle cfg False Get_profile sv =
           (Some (Json 200 (JObj [(''id'', JNum (user_id r)), (''github_id'', JStr (github_id r)),
                                  (''avatar_url'', JStr (avatar_url r)),
                                  (''username'', JStr (username r))])), sv) \<and>
         r \<in> set (rows (users sv)) \<and> user_id r = uid"
proof -
  have "passport_session False (users sv) (sess sv) = Pass (Some r)"
    using assms by (rule session_found)
  then have "handle cfg False Get_profile sv =
           (Some (Json 200 (JObj [(''id'', JNum (user_id r)), (''github_id'', JStr (github_id r)),
                                  (''avatar_url'', JStr (avatar_url r)),
                                  (''username'', JStr (username r))])), sv)"
    by (simp add: handle_def profile_route_def user_json_def)
  moreover from assms(2) have "r \<in> set (filter (\<lambda>r. user_id r = uid) (rows (users sv)))"
    by simp
  then have "r \<in> set (rows (users sv)) \<and> user_id r = uid" by simp
  ultimately show ?thesis by simp
qed

theorem profile_returns_whole_row_witness:
  "passport_user (sess ann_logged_in) = Some 7 \<and>
   filter (\<lambda>r. user_id r = 7) (rows (users ann_logged_in)) = [ann_row] \<and>
   handle example_config False Get_profile ann_logged_in =
     (Some (Json 200 (JObj [(''id'', JNum 7), (''github_id'', JStr ''42''),
                            (''avatar_url'', JStr ''a.png''), (''username'', JStr ''ann'')])),
      ann_logged_in)"
  using profile_returns_whole_row [where sv = ann_logged_in and uid = 7 and r = ann_row
      and rest = "[]" and cfg = example_config]
  by simp

end
